theory Spec2Isabelle
  imports Main "HOL-Library.Char_ord" "HOL-Library.List_Lexorder"
begin

section \<open>Ghostnote: stem selection and mix orchestration (app.py)\<close>

text \<open>
  A shallow embedding of \<^verbatim>\<open>src/app.py\<close>. Python text is modelled as \<open>string\<close>:
  a list of characters, each a code point below 256 (ASCII and the Latin-1 supplement);
  \<open>of_char\<close> gives the code point. On these strings \<open>strip\<close> and \<open>lower\<close> are Python's
  \<^verbatim>\<open>str.strip\<close> and \<^verbatim>\<open>str.lower\<close>: the white space below 256 is U+0009 to U+000D,
  U+001C to U+0020, U+0085 and U+00A0, and the upper-case letters below 256 are \<open>A..Z\<close>
  and U+00C0 to U+00DE without the multiplication sign U+00D7, each 32 below its
  lower-case letter. Text with a code point from 256 on has no counterpart in the model.
\<close>

subsection \<open>Python string primitives\<close>

definition py_isspace :: "char \<Rightarrow> bool" where
  \<comment> \<open>\<^verbatim>\<open>str.isspace\<close> of one character: TAB, LF, VT, FF, CR, FS, GS, RS, US, the blank,
      NEL (U+0085) and the no-break space (U+00A0).\<close>
  "py_isspace c =
     (let n = (of_char c :: nat)
      in (9 \<le> n \<and> n \<le> 13) \<or> (28 \<le> n \<and> n \<le> 32) \<or> n = 133 \<or> n = 160)"

definition lower_char :: "char \<Rightarrow> char" where
  \<comment> \<open>\<^verbatim>\<open>str.lower\<close> of one character: \<open>A..Z\<close> and U+00C0..U+00DE (not U+00D7) move up by 32.\<close>
  "lower_char c =
     (let n = (of_char c :: nat)
      in if (65 \<le> n \<and> n \<le> 90) \<or> (192 \<le> n \<and> n \<le> 222 \<and> n \<noteq> 215)
         then char_of (n + 32) else c)"

definition lower :: "string \<Rightarrow> string" where
  \<comment> \<open>\<^verbatim>\<open>s.lower()\<close>\<close>
  "lower s = map lower_char s"

definition strip :: "string \<Rightarrow> string" where
  \<comment> \<open>\<^verbatim>\<open>s.strip()\<close>: white space removed at both ends.\<close>
  "strip s = rev (dropWhile py_isspace (rev (dropWhile py_isspace s)))"

fun join :: "string \<Rightarrow> string list \<Rightarrow> string" where
  \<comment> \<open>\<^verbatim>\<open>sep.join(xs)\<close>\<close>
  "join sep [] = []"
| "join sep [x] = x"
| "join sep (x # y # ys) = x @ sep @ join sep (y # ys)"

fun str_nat :: "nat \<Rightarrow> string" where
  \<comment> \<open>\<^verbatim>\<open>str(n)\<close> of a natural number: its decimal digits.\<close>
  "str_nat n = (if n < 10 then [char_of (48 + n)] else str_nat (n div 10) @ [char_of (48 + n mod 10)])"

declare str_nat.simps [simp del]

definition rfind :: "string \<Rightarrow> char \<Rightarrow> int" where
  \<comment> \<open>\<^verbatim>\<open>p.rfind(c)\<close>: the last index of \<open>c\<close>, or \<open>-1\<close>.\<close>
  "rfind p c = (case filter (\<lambda>i. p ! i = c) (rev [0..<length p]) of [] \<Rightarrow> - 1 | i # _ \<Rightarrow> int i)"

definition splitext :: "string \<Rightarrow> string \<times> string" where
  \<comment> \<open>\<^verbatim>\<open>os.path.splitext\<close> (POSIX): the extension starts at the last dot after the last
      slash, unless only dots precede it in the file name.\<close>
  "splitext p =
     (let sepIndex = rfind p CHR ''/'';
          dotIndex = rfind p CHR ''.''
      in if dotIndex > sepIndex \<and>
            list_ex (\<lambda>i. p ! i \<noteq> CHR ''.'') [nat (sepIndex + 1)..<nat dotIndex]
         then (take (nat dotIndex) p, drop (nat dotIndex) p)
         else (p, []))"

subsection \<open>Paths, files and the external collaborators\<close>

text \<open>
  A \<^verbatim>\<open>Path\<close> is the list of its components; the upload's name is one component
  (what \<^verbatim>\<open>secure_filename\<close> is for). The file system is a map from paths to the size
  \<^verbatim>\<open>st_size\<close> of what exists there; directories are not tracked, so \<^verbatim>\<open>mkdir\<close>
  leaves no trace, and failures of the operating system while saving the upload are
  outside the model. The name of the mix file is kept as one component too: a label
  with a slash in it, which \<^verbatim>\<open>pathlib\<close> would split into several components, is outside
  the model.
\<close>

type_synonym path = "string list"

type_synonym files = "path \<rightharpoonup> nat"

definition str_path :: "path \<Rightarrow> string" where
  \<comment> \<open>\<^verbatim>\<open>str(p)\<close>\<close>
  "str_path p = join ''/'' p"

datatype exn =
    ValueError string
  | KeyError string
  | OtherException string

datatype run_result =
    Completed  \<comment> \<open>exit status 0\<close>
  | CalledProcessError string  \<comment> \<open>non-zero exit status; the captured bytes of stderr\<close>
  | RunRaised exn  \<comment> \<open>any other exception of \<^verbatim>\<open>subprocess.run\<close>\<close>

text \<open>
  What app.py calls and does not define: werkzeug's \<^verbatim>\<open>secure_filename\<close>, the Spleeter
  separator (its constructor and \<^verbatim>\<open>separate_to_file\<close>; \<open>Some msg\<close> is an exception with
  that message), \<^verbatim>\<open>subprocess.run\<close> on an argument vector, the decoding
  \<^verbatim>\<open>bytes.decode('utf-8', 'ignore')\<close>, and the listing \<^verbatim>\<open>out_dir.glob('*.wav')\<close>.
\<close>

record env =
  secure_filename :: "string \<Rightarrow> string"
  construct_separator :: "string \<Rightarrow> string option"
  separate_to_file :: "string \<Rightarrow> string \<Rightarrow> string \<Rightarrow> files \<Rightarrow> string option \<times> files"
  subprocess_run :: "string list \<Rightarrow> files \<Rightarrow> run_result \<times> files"
  decode_utf8_ignore :: "string \<Rightarrow> string"
  glob_wav :: "files \<Rightarrow> path \<Rightarrow> string list"

record state =
  files :: files
  separators :: "string list"  \<comment> \<open>the keys of \<^verbatim>\<open>_separators\<close>\<close>
  separate_calls :: "(string \<times> string \<times> string) list"  \<comment> \<open>calls of \<^verbatim>\<open>separate_to_file\<close>\<close>
  ffmpeg_calls :: "string list list"  \<comment> \<open>argument vectors given to \<^verbatim>\<open>subprocess.run\<close>\<close>

definition UPLOAD_DIR :: path where
  "UPLOAD_DIR = [''uploads'']"

definition OUTPUT_ROOT :: path where
  "OUTPUT_ROOT = [''static'', ''output'']"

definition ALLOWED :: "string set" where
  "ALLOWED = {''.mp3'', ''.wav'', ''.flac'', ''.m4a'', ''.ogg''}"

subsection \<open>Separator cache and mixing\<close>

definition get_separator :: "env \<Rightarrow> state \<Rightarrow> string \<Rightarrow> string + state" where
  \<comment> \<open>The separator returned is the one of \<open>preset\<close>; \<open>Inl\<close> is the constructor's exception.\<close>
  "get_separator e st preset =
     (if preset \<notin> set (separators st) then
        (case construct_separator e preset of
           Some msg \<Rightarrow> Inl msg
         | None \<Rightarrow> Inr (st\<lparr>separators := separators st @ [preset]\<rparr>))
      else Inr st)"

definition ffmpeg_args :: "path list \<Rightarrow> path \<Rightarrow> string list" where
  \<comment> \<open>Lines 44 to 50: the argument vector, with the filter graph of \<^verbatim>\<open>amix\<close>.\<close>
  "ffmpeg_args inputs output =
     (let n = length inputs;
          args = [''ffmpeg'', ''-y''] @ concat (map (\<lambda>p. [''-i'', str_path p]) inputs);
          filtergraph = concat (map (\<lambda>i. ''['' @ str_nat i @ '':a]'') [0..<n])
                          @ ''amix=inputs='' @ str_nat n @ '':normalize=0[a]''
      in args @ [''-filter_complex'', filtergraph, ''-map'', ''[a]'', str_path output])"

definition ffmpeg_mix :: "env \<Rightarrow> state \<Rightarrow> path list \<Rightarrow> path \<Rightarrow> (exn + string) \<times> state" where
  \<comment> \<open>\<open>Inr\<close> is the string returned, \<open>Inl\<close> an exception that is not caught.\<close>
  "ffmpeg_mix e st inputs output =
     (let n = length inputs
      in if n = 0 then (Inr ''No stems to mix.'', st)
         else
           (let args = ffmpeg_args inputs output;
                (r, fs) = subprocess_run e args (files st);
                st' = st\<lparr>files := fs, ffmpeg_calls := ffmpeg_calls st @ [args]\<rparr>
            in case r of
                 Completed \<Rightarrow> (Inr [], st')
               | CalledProcessError err \<Rightarrow> (Inr (decode_utf8_ignore e err), st')
               | RunRaised x \<Rightarrow> (Inl x, st')))"

subsection \<open>Helpers of app.py\<close>

definition normalize_instrument_name :: "string option \<Rightarrow> string" where
  \<comment> \<open>\<^verbatim>\<open>n = (name or '').strip().lower()\<close>; \<open>None\<close> is Python's \<^verbatim>\<open>None\<close>.\<close>
  "normalize_instrument_name name =
     (let n = lower (strip (case name of None \<Rightarrow> [] | Some s \<Rightarrow> s))
      in if n \<in> {''voice'', ''vocal''} then ''vocals'' else n)"

definition pick_preset_single :: "string \<Rightarrow> bool \<Rightarrow> string" where
  "pick_preset_single instrument karaoke_fast =
     (let t = normalize_instrument_name (Some instrument)
      in if t = ''piano'' then ''5stems''
         else if karaoke_fast \<and> t = ''vocals'' then ''2stems''
         else ''4stems'')"

definition pick_preset_multi :: "string list \<Rightarrow> string" where
  \<comment> \<open>\<^verbatim>\<open>rset = {normalize_instrument_name(x) for x in removals}\<close>\<close>
  "pick_preset_multi removals =
     (let rset = (\<lambda>x. normalize_instrument_name (Some x)) ` set removals
      in if rset = {''vocals''} then ''4stems''
         else if ''piano'' \<in> rset then ''5stems''
         else ''4stems'')"

definition expected_stems_for :: "string \<Rightarrow> exn + (string \<times> string) list" where
  \<comment> \<open>The dictionary in its insertion order.\<close>
  "expected_stems_for preset =
     (if preset = ''2stems'' then
        Inr [(''vocals'', ''vocals.wav''), (''accompaniment'', ''accompaniment.wav'')]
      else if preset = ''4stems'' then
        Inr [(''vocals'', ''vocals.wav''), (''drums'', ''drums.wav''), (''bass'', ''bass.wav''),
             (''other'', ''other.wav'')]
      else if preset = ''5stems'' then
        Inr [(''vocals'', ''vocals.wav''), (''drums'', ''drums.wav''), (''bass'', ''bass.wav''),
             (''piano'', ''piano.wav''), (''other'', ''other.wav'')]
      else Inl (ValueError (''Unknown preset: '' @ preset)))"

subsection \<open>The route /process\<close>

record request =
  audio_file :: "(string \<times> nat) option"
    \<comment> \<open>\<^verbatim>\<open>request.files.get('audio_file')\<close>: the file's name and the size of its content\<close>
  form_multi :: "string option"
  form_remove_multi :: "string list"
  form_instrument :: "string option"
  form_action :: "string option"
  form_karaoke :: "string option"

text \<open>The local variables of \<^verbatim>\<open>process\<close> once the request has been read and checked.\<close>

record job =
  filename :: string
  upload :: nat
  is_multi :: bool
  removals_multi :: "string list"
  instrument :: string
  action :: string
  karaoke_fast :: bool
  preset :: string

text \<open>The arguments given to \<^verbatim>\<open>render_template('result.html', ...)\<close>.\<close>

record result_page =
  page_mix_url :: string  \<comment> \<open>the \<^verbatim>\<open>filename\<close> given to \<^verbatim>\<open>url_for('static', ...)\<close>\<close>
  page_preset :: string
  page_is_multi :: bool
  page_removals :: "string list"
  page_instrument :: string
  page_action :: string
  page_stems_dir :: string
  page_file_name :: string

datatype response =
    NoFileUploaded  \<comment> \<open>\<^verbatim>\<open>'No file uploaded', 400\<close>\<close>
  | UnsupportedFileType string  \<comment> \<open>\<^verbatim>\<open>f'Unsupported file type: {ext}', 400\<close>\<close>
  | InvalidAction  \<comment> \<open>\<^verbatim>\<open>'Invalid action', 400\<close>\<close>
  | ChooseAtLeastOne  \<comment> \<open>\<^verbatim>\<open>'Choose at least one instrument to remove ...', 400\<close>\<close>
  | FastKaraokeOnly  \<comment> \<open>\<^verbatim>\<open>"Fast Karaoke Mode (2-stems) only supports ...", 400\<close>\<close>
  | SpleeterFailed string string  \<comment> \<open>\<^verbatim>\<open>f'Spleeter failed ({preset}): {e}', 500\<close>\<close>
  | UnexpectedOutput string "string list" "string list"
      \<comment> \<open>\<^verbatim>\<open>f'Unexpected output for {preset}. Missing/empty stems: {missing}. Present: {present}', 500\<close>\<close>
  | NotAvailableIn2stems string  \<comment> \<open>\<^verbatim>\<open>f"'{target_stem}' not available in 2-stems.", 400\<close>\<close>
  | TargetStemNotPresent string string
      \<comment> \<open>\<^verbatim>\<open>f"Target stem '{target_stem}' not present in {preset}.", 400\<close>\<close>
  | NothingToMix  \<comment> \<open>\<^verbatim>\<open>'Nothing to mix. Try a different selection.', 400\<close>\<close>
  | FFmpegMixFailed string  \<comment> \<open>\<^verbatim>\<open>f'FFmpeg mix failed: {err}', 500\<close>\<close>
  | ResultPage result_page  \<comment> \<open>the rendered template, 200\<close>
  | Unhandled exn  \<comment> \<open>an exception that leaves the route\<close>

fun status :: "response \<Rightarrow> nat" where
  "status NoFileUploaded = 400"
| "status (UnsupportedFileType _) = 400"
| "status InvalidAction = 400"
| "status ChooseAtLeastOne = 400"
| "status FastKaraokeOnly = 400"
| "status (SpleeterFailed _ _) = 500"
| "status (UnexpectedOutput _ _ _) = 500"
| "status (NotAvailableIn2stems _) = 400"
| "status (TargetStemNotPresent _ _) = 400"
| "status NothingToMix = 400"
| "status (FFmpegMixFailed _) = 500"
| "status (ResultPage _) = 200"
| "status (Unhandled _) = 500"

definition flag_on :: "string option \<Rightarrow> bool" where
  \<comment> \<open>\<^verbatim>\<open>request.form.get(key) in ('1', 'true', 'on')\<close>\<close>
  "flag_on v = (v \<in> {Some ''1'', Some ''true'', Some ''on''})"

definition read_action :: "string option \<Rightarrow> string" where
  \<comment> \<open>\<^verbatim>\<open>(request.form.get('action', 'remove') or 'remove').strip().lower()\<close>\<close>
  "read_action v =
     (let a = (case v of None \<Rightarrow> ''remove'' | Some s \<Rightarrow> s)
      in lower (strip (if a = [] then ''remove'' else a)))"

definition read_request :: "env \<Rightarrow> request \<Rightarrow> response + job" where
  \<comment> \<open>Lines 107 to 143: the checks that come before anything is written.\<close>
  "read_request e req =
     (case audio_file req of
        None \<Rightarrow> Inl NoFileUploaded
      | Some (fname, content) \<Rightarrow>
          if fname = [] then Inl NoFileUploaded
          else
            (let filename = secure_filename e fname;
                 ext = lower (snd (splitext filename))
             in if ext \<notin> ALLOWED then Inl (UnsupportedFileType ext)
                else
                  (let is_multi = flag_on (form_multi req);
                       removals_multi =
                         map (\<lambda>x. normalize_instrument_name (Some x)) (form_remove_multi req);
                       instrument =
                         normalize_instrument_name
                           (Some (case form_instrument req of None \<Rightarrow> ''drums'' | Some s \<Rightarrow> s));
                       action = read_action (form_action req);
                       karaoke_fast = flag_on (form_karaoke req)
                   in if action \<notin> {''remove'', ''solo''} then Inl InvalidAction
                      else if is_multi then
                        (if removals_multi = [] then Inl ChooseAtLeastOne
                         else Inr \<lparr>filename = filename, upload = content, is_multi = is_multi,
                                   removals_multi = removals_multi, instrument = instrument,
                                   action = ''remove'', karaoke_fast = False,
                                   preset = pick_preset_multi removals_multi\<rparr>)
                      else
                        (let preset = pick_preset_single instrument karaoke_fast
                         in if preset = ''2stems'' \<and> instrument \<notin> {''vocals'', ''accompaniment''}
                            then Inl FastKaraokeOnly
                            else Inr \<lparr>filename = filename, upload = content, is_multi = is_multi,
                                      removals_multi = removals_multi, instrument = instrument,
                                      action = action, karaoke_fast = karaoke_fast,
                                      preset = preset\<rparr>))))"

definition in_path_of :: "job \<Rightarrow> path" where
  \<comment> \<open>\<^verbatim>\<open>in_path = UPLOAD_DIR / filename\<close>\<close>
  "in_path_of j = UPLOAD_DIR @ [filename j]"

definition out_dir_of :: "job \<Rightarrow> path" where
  \<comment> \<open>\<^verbatim>\<open>out_dir = OUTPUT_ROOT / os.path.splitext(filename)[0]\<close>\<close>
  "out_dir_of j = OUTPUT_ROOT @ [fst (splitext (filename j))]"

definition stem_missing :: "files \<Rightarrow> path \<Rightarrow> bool" where
  \<comment> \<open>\<^verbatim>\<open>not p.exists() or p.stat().st_size == 0\<close>\<close>
  "stem_missing fs p = (case fs p of None \<Rightarrow> True | Some sz \<Rightarrow> sz = 0)"

definition separate :: "env \<Rightarrow> state \<Rightarrow> job \<Rightarrow> string option \<times> state" where
  \<comment> \<open>Lines 163 and 164; \<open>Some msg\<close> is the exception caught at line 170.\<close>
  "separate e st j =
     (case get_separator e st (preset j) of
        Inl msg \<Rightarrow> (Some msg, st)
      | Inr st1 \<Rightarrow>
          (let (r, fs) = separate_to_file e (preset j) (str_path (in_path_of j))
                           (str_path OUTPUT_ROOT) (files st1)
           in (r, st1\<lparr>files := fs,
                      separate_calls := separate_calls st1
                        @ [(preset j, str_path (in_path_of j), str_path OUTPUT_ROOT)]\<rparr>)))"

definition ensure_stems :: "env \<Rightarrow> state \<Rightarrow> job \<Rightarrow> (response + (string \<times> path) list) \<times> state" where
  \<comment> \<open>Lines 145 to 177: save the upload, separate if a stem is missing, check the stems.\<close>
  "ensure_stems e st j =
     (let st1 = st\<lparr>files := (files st)(in_path_of j \<mapsto> upload j)\<rparr>
      in case expected_stems_for (preset j) of
           Inl x \<Rightarrow> (Inl (Unhandled x), st1)
         | Inr stems_files \<Rightarrow>
             (let stems_paths = map (\<lambda>(name, wavname). (name, out_dir_of j @ [wavname])) stems_files;
                  need_separate = list_ex (\<lambda>(name, p). stem_missing (files st1) p) stems_paths;
                  (failure, st2) = (if need_separate then separate e st1 j else (None, st1))
              in case failure of
                   Some msg \<Rightarrow> (Inl (SpleeterFailed (preset j) msg), st2)
                 | None \<Rightarrow>
                     (let st3 = st2\<lparr>files := (files st2)(in_path_of j := None)\<rparr>;
                          missing = map fst (filter (\<lambda>(name, p). stem_missing (files st3) p) stems_paths)
                      in if missing \<noteq> []
                         then (Inl (UnexpectedOutput (preset j) missing
                                      (glob_wav e (files st3) (out_dir_of j))), st3)
                         else (Inr stems_paths, st3))))"

definition decide_keep :: "job \<Rightarrow> (string \<times> path) list \<Rightarrow> response + (path list \<times> string)" where
  \<comment> \<open>Lines 179 to 199: the paths to keep and the label.\<close>
  "decide_keep j stems_paths =
     (if is_multi j then
        (let targets = set (removals_multi j)
         in Inr (map snd (filter (\<lambda>(stem, p). stem \<notin> targets) stems_paths),
                 ''no_'' @ join ''-'' (sorted_list_of_set targets)))
      else
        (let target_stem = instrument j
         in if preset j = ''2stems'' \<and> target_stem \<notin> {''vocals'', ''accompaniment''}
            then Inl (NotAvailableIn2stems target_stem)
            else if target_stem \<notin> fst ` set stems_paths
            then Inl (TargetStemNotPresent target_stem (preset j))
            else if action j = ''remove''
            then Inr (map snd (filter (\<lambda>(stem, p). stem \<noteq> target_stem) stems_paths),
                      ''no_'' @ target_stem)
            else (case map_of stems_paths target_stem of
                    None \<Rightarrow> Inl (Unhandled (KeyError target_stem))
                  | Some p \<Rightarrow> Inr ([p], ''solo_'' @ target_stem))))"

definition pretty_preset :: "string \<Rightarrow> string" where
  \<comment> \<open>\<^verbatim>\<open>{'2stems': '2', '4stems': '4', '5stems': '5'}.get(preset, preset)\<close>\<close>
  "pretty_preset p =
     (case map_of [(''2stems'', ''2''), (''4stems'', ''4''), (''5stems'', ''5'')] p of
        Some v \<Rightarrow> v
      | None \<Rightarrow> p)"

definition mix_and_respond :: "env \<Rightarrow> state \<Rightarrow> job \<Rightarrow> path list \<Rightarrow> string \<Rightarrow> response \<times> state" where
  \<comment> \<open>Lines 201 to 228.\<close>
  "mix_and_respond e st j keep_paths label =
     (if length keep_paths = 0 then (NothingToMix, st)
      else
        (let base = fst (splitext (filename j));
             mix_name = base @ ''_'' @ label @ ''.wav'';
             mix_path = out_dir_of j @ [mix_name]
         in case ffmpeg_mix e st keep_paths mix_path of
              (Inl x, st') \<Rightarrow> (Unhandled x, st')
            | (Inr err, st') \<Rightarrow>
                if err \<noteq> [] then (FFmpegMixFailed err, st')
                else (ResultPage
                        \<lparr>page_mix_url = ''output/'' @ base @ ''/'' @ mix_name,
                         page_preset = pretty_preset (preset j),
                         page_is_multi = is_multi j,
                         page_removals =
                           (if is_multi j then sorted_list_of_set (set (removals_multi j)) else []),
                         page_instrument = instrument j,
                         page_action = action j,
                         page_stems_dir = ''output/'' @ base,
                         page_file_name = filename j\<rparr>, st')))"

definition run_job :: "env \<Rightarrow> state \<Rightarrow> job \<Rightarrow> response \<times> state" where
  \<comment> \<open>Lines 145 to 228: what the route does once the request has passed its checks.\<close>
  "run_job e st j =
     (case ensure_stems e st j of
        (Inl r, st') \<Rightarrow> (r, st')
      | (Inr stems_paths, st') \<Rightarrow>
          (case decide_keep j stems_paths of
             Inl r \<Rightarrow> (r, st')
           | Inr (keep_paths, label) \<Rightarrow> mix_and_respond e st' j keep_paths label))"

definition process :: "env \<Rightarrow> state \<Rightarrow> request \<Rightarrow> response \<times> state" where
  "process e st req =
     (case read_request e req of
        Inl r \<Rightarrow> (r, st)
      | Inr j \<Rightarrow> run_job e st j)"

subsection \<open>A sample environment\<close>

text \<open>
  A separator that writes the stems of its preset for the upload \<^verbatim>\<open>song\<close>, a mixer that
  writes its output file, and a mixer that exits with a failure and prints nothing.
\<close>

fun split_on :: "char \<Rightarrow> string \<Rightarrow> string list" where
  "split_on c [] = [[]]"
| "split_on c (x # xs) =
     (if x = c then [] # split_on c xs
      else (case split_on c xs of [] \<Rightarrow> [[x]] | y # ys \<Rightarrow> (x # y) # ys))"

definition sample_separate :: "string \<Rightarrow> string \<Rightarrow> string \<Rightarrow> files \<Rightarrow> string option \<times> files" where
  "sample_separate model inp root fs =
     (case expected_stems_for model of
        Inl _ \<Rightarrow> (Some ''no such model'', fs)
      | Inr stems \<Rightarrow>
          (None, fold (\<lambda>(name, wav) m. m(split_on CHR ''/'' root @ [''song'', wav] \<mapsto> 1000)) stems fs))"

definition sample_run :: "string list \<Rightarrow> files \<Rightarrow> run_result \<times> files" where
  "sample_run args fs = (Completed, fs(split_on CHR ''/'' (last args) \<mapsto> 2000))"

definition sample_env :: env where
  "sample_env =
     \<lparr>secure_filename = (\<lambda>s. s),
      construct_separator = (\<lambda>model. None),
      separate_to_file = sample_separate,
      subprocess_run = sample_run,
      decode_utf8_ignore = (\<lambda>b. b),
      glob_wav = (\<lambda>fs d. [])\<rparr>"

definition silent_failure_env :: env where
  "silent_failure_env = sample_env\<lparr>subprocess_run := (\<lambda>args fs. (CalledProcessError [], fs))\<rparr>"

definition empty_state :: state where
  "empty_state = \<lparr>files = Map.empty, separators = [], separate_calls = [], ffmpeg_calls = []\<rparr>"

definition sample_request :: request where
  "sample_request =
     \<lparr>audio_file = Some (''song.mp3'', 5000),
      form_multi = None,
      form_remove_multi = [],
      form_instrument = Some ''drums'',
      form_action = Some ''remove'',
      form_karaoke = None\<rparr>"

definition solo_vocals_request :: request where
  "solo_vocals_request = sample_request\<lparr>form_instrument := Some ''vocals'', form_action := Some ''solo''\<rparr>"

definition multi_request :: request where
  "multi_request = sample_request\<lparr>form_multi := Some ''on'', form_remove_multi := [''drums'', ''bass'']\<rparr>"

definition full_removal_request :: request where
  "full_removal_request =
     sample_request\<lparr>form_multi := Some ''on'',
       form_remove_multi := [''vocals'', ''drums'', ''bass'', ''other'']\<rparr>"

section \<open>Properties\<close>

subsection \<open>String primitives\<close>

lemma of_char_lower_char:
  "(of_char (lower_char c) :: nat) =
     (if (65 \<le> (of_char c :: nat) \<and> (of_char c :: nat) \<le> 90)
         \<or> (192 \<le> (of_char c :: nat) \<and> (of_char c :: nat) \<le> 222 \<and> (of_char c :: nat) \<noteq> 215)
      then of_char c + 32 else of_char c)"
  by (simp add: lower_char_def Let_def)

lemma lower_char_idem: "lower_char (lower_char c) = lower_char c"
proof (cases "(65 \<le> (of_char c :: nat) \<and> (of_char c :: nat) \<le> 90)
         \<or> (192 \<le> (of_char c :: nat) \<and> (of_char c :: nat) \<le> 222 \<and> (of_char c :: nat) \<noteq> 215)")
  case True
  then have "(of_char (lower_char c) :: nat) = of_char c + 32"
    by (simp add: of_char_lower_char)
  then show ?thesis
    using True by (auto simp add: lower_char_def [of "lower_char c"] Let_def)
next
  case False
  then have "lower_char c = c"
    by (auto simp add: lower_char_def Let_def)
  then show ?thesis by simp
qed

lemma py_isspace_lower_char: "py_isspace (lower_char c) = py_isspace c"
  unfolding py_isspace_def Let_def of_char_lower_char by auto

lemma lower_idem: "lower (lower s) = lower s"
  by (simp add: lower_def lower_char_idem)

lemma dropWhile_isspace_lower:
  "dropWhile py_isspace (lower s) = lower (dropWhile py_isspace s)"
  by (induction s) (simp_all add: lower_def py_isspace_lower_char)

lemma strip_lower: "strip (lower s) = lower (strip s)"
proof -
  have r: "rev (lower t) = lower (rev t)" for t
    by (simp add: lower_def rev_map)
  show ?thesis
    unfolding strip_def
    by (simp add: dropWhile_isspace_lower r)
qed

lemma dropWhile_rev_dropWhile:
  "dropWhile P (rev (dropWhile P (rev (dropWhile P s)))) = rev (dropWhile P (rev (dropWhile P s)))"
proof (cases "dropWhile P (rev (dropWhile P s)) = []")
  case True
  then show ?thesis by (simp only: rev.simps dropWhile.simps)
next
  case False
  define a where "a = dropWhile P s"
  define b where "b = dropWhile P (rev a)"
  from False have bne: "b \<noteq> []" by (simp add: a_def b_def)
  then have ane: "a \<noteq> []" by (auto simp: b_def)
  have "\<not> P (hd a)"
    using ane unfolding a_def by (metis hd_dropWhile)
  moreover have "last b = hd a"
  proof -
    obtain us where "rev a = us @ b"
      unfolding b_def by (metis takeWhile_dropWhile_id)
    then have "last (rev a) = last b" using bne by simp
    then show ?thesis using ane by (simp add: last_rev)
  qed
  ultimately have "\<not> P (hd (rev b))" using bne by (simp add: hd_rev)
  moreover have "rev b \<noteq> []" using bne by simp
  ultimately have "dropWhile P (rev b) = rev b"
    by (cases "rev b") simp_all
  then show ?thesis by (simp add: a_def b_def)
qed

lemma strip_idem: "strip (strip s) = strip s"
  unfolding strip_def by (simp add: dropWhile_rev_dropWhile)

lemma strip_lower_strip: "lower (strip (lower (strip s))) = lower (strip s)"
  by (simp add: strip_lower strip_idem lower_idem)

subsection \<open>Instrument normalizer\<close>

lemma normalize_vocals: "normalize_instrument_name (Some ''vocals'') = ''vocals''"
  by code_simp

lemma normalize_latin1:
  "normalize_instrument_name (Some (''VOCAL'' @ [CHR 0xA0])) = ''vocals''"
  "normalize_instrument_name (Some ([CHR 0x85] @ ''Voice'' @ [CHR 0xA0])) = ''vocals''"
  "lower [CHR 0xC0, CHR 0xD7, CHR 0xDE, CHR 0xDF] = [CHR 0xE0, CHR 0xD7, CHR 0xFE, CHR 0xDF]"
  by code_simp+

lemma normalize_idem:
  "normalize_instrument_name (Some (normalize_instrument_name x)) = normalize_instrument_name x"
proof -
  define n where "n = lower (strip (case x of None \<Rightarrow> [] | Some s \<Rightarrow> s))"
  have stable: "lower (strip n) = n"
    unfolding n_def by (rule strip_lower_strip)
  show ?thesis
  proof (cases "n \<in> {''voice'', ''vocal''}")
    case True
    then have "normalize_instrument_name x = ''vocals''"
      by (simp add: normalize_instrument_name_def n_def [symmetric] Let_def)
    then show ?thesis by (simp add: normalize_vocals)
  next
    case False
    then have eq: "normalize_instrument_name x = n"
      by (simp add: normalize_instrument_name_def n_def [symmetric] Let_def)
    have "normalize_instrument_name (Some n) = n"
      using False by (simp add: normalize_instrument_name_def stable Let_def)
    then show ?thesis by (simp add: eq)
  qed
qed

text \<open>
  C7. Normalization is a total function of the raw name, \<^verbatim>\<open>None\<close> and the empty string
  included (both give the empty string), and it is idempotent: normalizing a normalized
  name changes nothing, for every raw string of the model (every string of code points
  below 256, with Python's own white space and case mapping on them). "Voice", "VOCAL"
  and " vocal " all normalize to "vocals".
\<close>

theorem normalize_total_idempotent:
  "normalize_instrument_name (Some (normalize_instrument_name x)) = normalize_instrument_name x
   \<and> normalize_instrument_name None = []
   \<and> normalize_instrument_name (Some []) = []
   \<and> normalize_instrument_name (Some ''Voice'') = ''vocals''
   \<and> normalize_instrument_name (Some ''VOCAL'') = ''vocals''
   \<and> normalize_instrument_name (Some '' vocal '') = ''vocals''"
proof -
  have e1: "normalize_instrument_name None = []" by code_simp
  have e2: "normalize_instrument_name (Some []) = []" by code_simp
  have e3: "normalize_instrument_name (Some ''Voice'') = ''vocals''" by code_simp
  have e4: "normalize_instrument_name (Some ''VOCAL'') = ''vocals''" by code_simp
  have e5: "normalize_instrument_name (Some '' vocal '') = ''vocals''" by code_simp
  from normalize_idem [of x] e1 e2 e3 e4 e5 show ?thesis by blast
qed

subsection \<open>Preset selector\<close>

text \<open>
  C1. The single-mode selector returns 5stems whenever the normalized instrument is
  "piano", whatever the karaoke flag; 2stems when the flag is set and the normalized
  instrument is "vocals"; and 4stems in every other case.
\<close>

theorem pick_preset_single_policy:
  "(normalize_instrument_name (Some i) = ''piano'' \<longrightarrow> pick_preset_single i k = ''5stems'')
   \<and> (k \<and> normalize_instrument_name (Some i) = ''vocals'' \<longrightarrow> pick_preset_single i k = ''2stems'')
   \<and> (normalize_instrument_name (Some i) \<noteq> ''piano''
       \<and> \<not> (k \<and> normalize_instrument_name (Some i) = ''vocals'')
      \<longrightarrow> pick_preset_single i k = ''4stems'')"
  by (simp add: pick_preset_single_def Let_def)

theorem pick_preset_single_policy_witness:
  "pick_preset_single ''piano'' True = ''5stems''
   \<and> pick_preset_single ''vocals'' True = ''2stems''
   \<and> pick_preset_single ''drums'' False = ''4stems''"
proof -
  have p: "normalize_instrument_name (Some ''piano'') = ''piano''" by code_simp
  have v: "normalize_instrument_name (Some ''vocals'') = ''vocals''" by code_simp
  have d: "normalize_instrument_name (Some ''drums'') = ''drums''" by code_simp
  have "pick_preset_single ''piano'' True = ''5stems''"
    using pick_preset_single_policy [of "''piano''" True] p by blast
  moreover have "pick_preset_single ''vocals'' True = ''2stems''"
    using pick_preset_single_policy [of "''vocals''" True] v by blast
  moreover have "pick_preset_single ''drums'' False = ''4stems''"
    using pick_preset_single_policy [of "''drums''" False] d by simp
  ultimately show ?thesis by blast
qed

text \<open>
  C2. The multi-mode selector returns 4stems when the normalized removal set is exactly
  {"vocals"}, 5stems when "piano" is in the normalized removal set, 4stems otherwise,
  and 2stems for no input.
\<close>

theorem pick_preset_multi_policy:
  "((\<lambda>x. normalize_instrument_name (Some x)) ` set rs = {''vocals''}
      \<longrightarrow> pick_preset_multi rs = ''4stems'')
   \<and> (''piano'' \<in> (\<lambda>x. normalize_instrument_name (Some x)) ` set rs
      \<longrightarrow> pick_preset_multi rs = ''5stems'')
   \<and> ((\<lambda>x. normalize_instrument_name (Some x)) ` set rs \<noteq> {''vocals''}
       \<and> ''piano'' \<notin> (\<lambda>x. normalize_instrument_name (Some x)) ` set rs
      \<longrightarrow> pick_preset_multi rs = ''4stems'')
   \<and> pick_preset_multi rs \<noteq> ''2stems''"
  by (auto simp add: pick_preset_multi_def Let_def)

theorem pick_preset_multi_policy_witness:
  "pick_preset_multi [''Voice''] = ''4stems''
   \<and> pick_preset_multi [''piano'', ''drums''] = ''5stems''
   \<and> pick_preset_multi [''drums'', ''bass''] = ''4stems''"
proof -
  have v: "(\<lambda>x. normalize_instrument_name (Some x)) ` set [''Voice''] = {''vocals''}"
    by code_simp
  have p: "''piano'' \<in> (\<lambda>x. normalize_instrument_name (Some x)) ` set [''piano'', ''drums'']"
    by code_simp
  have d: "(\<lambda>x. normalize_instrument_name (Some x)) ` set [''drums'', ''bass''] \<noteq> {''vocals''}
           \<and> ''piano'' \<notin> (\<lambda>x. normalize_instrument_name (Some x)) ` set [''drums'', ''bass'']"
    by code_simp
  have "pick_preset_multi [''Voice''] = ''4stems''"
    using pick_preset_multi_policy [of "[''Voice'']"] v by blast
  moreover have "pick_preset_multi [''piano'', ''drums''] = ''5stems''"
    using pick_preset_multi_policy [of "[''piano'', ''drums'']"] p by blast
  moreover have "pick_preset_multi [''drums'', ''bass''] = ''4stems''"
    using pick_preset_multi_policy [of "[''drums'', ''bass'']"] d by blast
  ultimately show ?thesis by blast
qed

subsection \<open>Mix invoker\<close>

lemma ffmpeg_mix_Nil: "ffmpeg_mix e st [] output = (Inr ''No stems to mix.'', st)"
  by (simp add: ffmpeg_mix_def)

lemma ffmpeg_mix_calls:
  "inputs \<noteq> [] \<Longrightarrow>
     ffmpeg_calls (snd (ffmpeg_mix e st inputs output)) = ffmpeg_calls st @ [ffmpeg_args inputs output]"
  by (cases "subprocess_run e (ffmpeg_args inputs output) (files st)")
     (simp add: ffmpeg_mix_def Let_def split: run_result.splits)

lemma ffmpeg_mix_Completed:
  "inputs \<noteq> [] \<Longrightarrow> fst (subprocess_run e (ffmpeg_args inputs output) (files st)) = Completed \<Longrightarrow>
     fst (ffmpeg_mix e st inputs output) = Inr []"
  by (cases "subprocess_run e (ffmpeg_args inputs output) (files st)")
     (simp add: ffmpeg_mix_def Let_def split: run_result.splits)

lemma ffmpeg_mix_CalledProcessError:
  "inputs \<noteq> [] \<Longrightarrow>
     fst (subprocess_run e (ffmpeg_args inputs output) (files st)) = CalledProcessError err \<Longrightarrow>
     fst (ffmpeg_mix e st inputs output) = Inr (decode_utf8_ignore e err)"
  by (cases "subprocess_run e (ffmpeg_args inputs output) (files st)")
     (simp add: ffmpeg_mix_def Let_def split: run_result.splits)

text \<open>
  C9 does not hold of \<^verbatim>\<open>ffmpeg_mix\<close>: "it returns the empty string exactly when the mixer
  succeeds". When the mixer exits with a failure and an empty stderr, \<^verbatim>\<open>ffmpeg_mix\<close>
  returns the empty string, the value it returns on success, and the route, which takes
  a non-empty string for the failure (\<^verbatim>\<open>if err:\<close>, line 210), answers with the result
  page, status 200, for a mix that was not produced. The mixer was invoked once.
\<close>

theorem silent_mixer_failure_served_as_success:
  "fst (subprocess_run silent_failure_env
          (ffmpeg_args [[''static'', ''output'', ''song'', ''vocals.wav'']]
             [''static'', ''output'', ''song'', ''song_solo_vocals.wav''])
          (files empty_state)) = CalledProcessError []
   \<and> fst (ffmpeg_mix silent_failure_env empty_state
            [[''static'', ''output'', ''song'', ''vocals.wav'']]
            [''static'', ''output'', ''song'', ''song_solo_vocals.wav'']) = Inr []
   \<and> fst (process silent_failure_env empty_state solo_vocals_request)
     = ResultPage
         \<lparr>page_mix_url = ''output/song/song_solo_vocals.wav'', page_preset = ''4'',
          page_is_multi = False, page_removals = [], page_instrument = ''vocals'',
          page_action = ''solo'', page_stems_dir = ''output/song'',
          page_file_name = ''song.mp3''\<rparr>
   \<and> status (fst (process silent_failure_env empty_state solo_vocals_request)) = 200
   \<and> ffmpeg_calls (snd (process silent_failure_env empty_state solo_vocals_request))
     = [[''ffmpeg'', ''-y'', ''-i'', ''static/output/song/vocals.wav'', ''-filter_complex'',
         ''[0:a]amix=inputs=1:normalize=0[a]'', ''-map'', ''[a]'',
         ''static/output/song/song_solo_vocals.wav'']]"
proof -
  have a: "fst (subprocess_run silent_failure_env
          (ffmpeg_args [[''static'', ''output'', ''song'', ''vocals.wav'']]
             [''static'', ''output'', ''song'', ''song_solo_vocals.wav''])
          (files empty_state)) = CalledProcessError []"
    by (simp add: silent_failure_env_def sample_env_def)
  have b: "fst (ffmpeg_mix silent_failure_env empty_state
            [[''static'', ''output'', ''song'', ''vocals.wav'']]
            [''static'', ''output'', ''song'', ''song_solo_vocals.wav'']) = Inr []"
    by (simp add: ffmpeg_mix_def silent_failure_env_def sample_env_def Let_def)
  have c: "fst (process silent_failure_env empty_state solo_vocals_request)
     = ResultPage
         \<lparr>page_mix_url = ''output/song/song_solo_vocals.wav'', page_preset = ''4'',
          page_is_multi = False, page_removals = [], page_instrument = ''vocals'',
          page_action = ''solo'', page_stems_dir = ''output/song'',
          page_file_name = ''song.mp3''\<rparr>"
    by code_simp
  have d: "status (fst (process silent_failure_env empty_state solo_vocals_request)) = 200"
    by code_simp
  have e: "ffmpeg_calls (snd (process silent_failure_env empty_state solo_vocals_request))
     = [[''ffmpeg'', ''-y'', ''-i'', ''static/output/song/vocals.wav'', ''-filter_complex'',
         ''[0:a]amix=inputs=1:normalize=0[a]'', ''-map'', ''[a]'',
         ''static/output/song/song_solo_vocals.wav'']]"
    by code_simp
  from a b c d e show ?thesis by (intro conjI)
qed

subsection \<open>Request validation\<close>

lemma read_request_bad_extension:
  assumes "audio_file req = Some (fname, content)"
    and "lower (snd (splitext (secure_filename e fname))) \<notin> ALLOWED"
  shows "read_request e req =
           Inl (if fname = [] then NoFileUploaded
                else UnsupportedFileType (lower (snd (splitext (secure_filename e fname)))))"
  using assms by (simp add: read_request_def Let_def)

text \<open>
  C8. When the extension of the uploaded file's secured name, lower-cased, is not one of
  .mp3, .wav, .flac, .m4a, .ogg, the request is answered with status 400 (the file is
  reported as unsupported, or as missing when its name is empty) and the state is the one
  the request found: no upload saved, no separator built or run, no mixer call.
\<close>

theorem unsupported_file_rejected:
  assumes "audio_file req = Some (fname, content)"
    and "lower (snd (splitext (secure_filename e fname))) \<notin> ALLOWED"
  shows "process e st req =
           ((if fname = [] then NoFileUploaded
             else UnsupportedFileType (lower (snd (splitext (secure_filename e fname))))), st)
         \<and> status (fst (process e st req)) = 400
         \<and> files (snd (process e st req)) = files st
         \<and> separators (snd (process e st req)) = separators st
         \<and> separate_calls (snd (process e st req)) = separate_calls st
         \<and> ffmpeg_calls (snd (process e st req)) = ffmpeg_calls st"
  using read_request_bad_extension [OF assms] by (simp add: process_def)

theorem unsupported_file_rejected_witness:
  "process sample_env empty_state (sample_request\<lparr>audio_file := Some (''song.xyz'', 5000)\<rparr>)
     = (UnsupportedFileType ''.xyz'', empty_state)"
proof -
  let ?req = "sample_request\<lparr>audio_file := Some (''song.xyz'', 5000)\<rparr>"
  have f: "audio_file ?req = Some (''song.xyz'', 5000)"
    by (simp add: sample_request_def)
  have ext: "lower (snd (splitext (secure_filename sample_env ''song.xyz''))) = ''.xyz''"
    by code_simp
  have bad: "lower (snd (splitext (secure_filename sample_env ''song.xyz''))) \<notin> ALLOWED"
    unfolding ext by (simp add: ALLOWED_def)
  from unsupported_file_rejected [OF f bad, of empty_state] show ?thesis
    by (simp add: ext)
qed

subsection \<open>What a job does not depend on\<close>

lemma job_karaoke:
  "filename (j\<lparr>karaoke_fast := k\<rparr>) = filename j"
  "upload (j\<lparr>karaoke_fast := k\<rparr>) = upload j"
  "is_multi (j\<lparr>karaoke_fast := k\<rparr>) = is_multi j"
  "removals_multi (j\<lparr>karaoke_fast := k\<rparr>) = removals_multi j"
  "instrument (j\<lparr>karaoke_fast := k\<rparr>) = instrument j"
  "action (j\<lparr>karaoke_fast := k\<rparr>) = action j"
  "preset (j\<lparr>karaoke_fast := k\<rparr>) = preset j"
  by simp_all

lemma paths_karaoke:
  "in_path_of (j\<lparr>karaoke_fast := k\<rparr>) = in_path_of j"
  "out_dir_of (j\<lparr>karaoke_fast := k\<rparr>) = out_dir_of j"
  by (simp_all add: in_path_of_def out_dir_of_def)

lemma separate_karaoke: "separate e st (j\<lparr>karaoke_fast := k\<rparr>) = separate e st j"
  unfolding separate_def paths_karaoke job_karaoke ..

lemma ensure_stems_karaoke: "ensure_stems e st (j\<lparr>karaoke_fast := k\<rparr>) = ensure_stems e st j"
  unfolding ensure_stems_def paths_karaoke job_karaoke separate_karaoke ..

lemma decide_keep_karaoke: "decide_keep (j\<lparr>karaoke_fast := k\<rparr>) sp = decide_keep j sp"
  unfolding decide_keep_def job_karaoke ..

lemma mix_and_respond_karaoke:
  "mix_and_respond e st (j\<lparr>karaoke_fast := k\<rparr>) keep label = mix_and_respond e st j keep label"
  unfolding mix_and_respond_def paths_karaoke job_karaoke ..

lemma run_job_karaoke: "run_job e st (j\<lparr>karaoke_fast := k\<rparr>) = run_job e st j"
  by (simp add: run_job_def ensure_stems_karaoke decide_keep_karaoke mix_and_respond_karaoke
      split: prod.splits sum.splits)

lemma read_request_fields:
  assumes "read_request e req = Inr j"
  shows "is_multi j = flag_on (form_multi req)"
    and "removals_multi j = map (\<lambda>x. normalize_instrument_name (Some x)) (form_remove_multi req)"
    and "is_multi j \<Longrightarrow> action j = ''remove''"
    and "is_multi j \<Longrightarrow> \<not> karaoke_fast j"
    and "is_multi j \<Longrightarrow> preset j = pick_preset_multi (removals_multi j)"
    and "is_multi j \<Longrightarrow> removals_multi j \<noteq> []"
    and "action j \<in> {''remove'', ''solo''}"
  using assms
  by (auto simp add: read_request_def Let_def split: option.splits prod.splits if_splits)

subsection \<open>The karaoke flag in single mode\<close>

lemma pick_preset_single_not_vocals:
  "normalize_instrument_name (Some i) \<noteq> ''vocals'' \<Longrightarrow>
     pick_preset_single i k = pick_preset_single i False"
  by (simp add: pick_preset_single_def Let_def)

lemma read_request_karaoke:
  assumes "\<not> flag_on (form_multi req)"
    and "normalize_instrument_name
           (Some (normalize_instrument_name
                    (Some (case form_instrument req of None \<Rightarrow> ''drums'' | Some s \<Rightarrow> s))))
         \<noteq> ''vocals''"
  shows "read_request e (req\<lparr>form_karaoke := k\<rparr>)
           = map_sum id (\<lambda>j. j\<lparr>karaoke_fast := flag_on k\<rparr>)
               (read_request e (req\<lparr>form_karaoke := None\<rparr>))"
proof -
  let ?i = "normalize_instrument_name
              (Some (case form_instrument req of None \<Rightarrow> ''drums'' | Some s \<Rightarrow> s))"
  have P: "pick_preset_single ?i b = pick_preset_single ?i False" for b
    using assms(2) by (rule pick_preset_single_not_vocals)
  show ?thesis
    using assms(1)
    by (auto simp add: read_request_def Let_def P [of "flag_on k"] P [of "flag_on None"]
        split: option.splits prod.splits)
qed

lemma karaoke_inert:
  assumes "\<not> flag_on (form_multi req)"
    and "normalize_instrument_name
           (Some (normalize_instrument_name
                    (Some (case form_instrument req of None \<Rightarrow> ''drums'' | Some s \<Rightarrow> s))))
         \<noteq> ''vocals''"
  shows "process e st (req\<lparr>form_karaoke := k\<rparr>) = process e st (req\<lparr>form_karaoke := None\<rparr>)"
    and "map_sum id preset (read_request e (req\<lparr>form_karaoke := k\<rparr>))
           = map_sum id preset (read_request e (req\<lparr>form_karaoke := None\<rparr>))"
  unfolding process_def read_request_karaoke [OF assms, of e k]
  by (cases "read_request e (req\<lparr>form_karaoke := None\<rparr>)"; simp add: run_job_karaoke)+

text \<open>
  C3, as the claim states it, fails: a single-mode request to solo the vocals gets the
  preset 2stems when the karaoke flag is on and 4stems when it is off, and the result
  pages differ in the preset they show. The selector never looks at the action.
\<close>

theorem karaoke_flag_changes_solo_vocals:
  "map_sum id preset (read_request sample_env (solo_vocals_request\<lparr>form_karaoke := Some ''on''\<rparr>))
     = Inr ''2stems''
   \<and> map_sum id preset (read_request sample_env (solo_vocals_request\<lparr>form_karaoke := None\<rparr>))
     = Inr ''4stems''
   \<and> fst (process sample_env empty_state (solo_vocals_request\<lparr>form_karaoke := Some ''on''\<rparr>))
     = ResultPage
         \<lparr>page_mix_url = ''output/song/song_solo_vocals.wav'', page_preset = ''2'',
          page_is_multi = False, page_removals = [], page_instrument = ''vocals'',
          page_action = ''solo'', page_stems_dir = ''output/song'',
          page_file_name = ''song.mp3''\<rparr>
   \<and> fst (process sample_env empty_state (solo_vocals_request\<lparr>form_karaoke := None\<rparr>))
     = ResultPage
         \<lparr>page_mix_url = ''output/song/song_solo_vocals.wav'', page_preset = ''4'',
          page_is_multi = False, page_removals = [], page_instrument = ''vocals'',
          page_action = ''solo'', page_stems_dir = ''output/song'',
          page_file_name = ''song.mp3''\<rparr>"
proof -
  have a: "map_sum id preset
             (read_request sample_env (solo_vocals_request\<lparr>form_karaoke := Some ''on''\<rparr>))
           = Inr ''2stems''"
    by code_simp
  have b: "map_sum id preset
             (read_request sample_env (solo_vocals_request\<lparr>form_karaoke := None\<rparr>))
           = Inr ''4stems''"
    by code_simp
  have c: "fst (process sample_env empty_state (solo_vocals_request\<lparr>form_karaoke := Some ''on''\<rparr>))
     = ResultPage
         \<lparr>page_mix_url = ''output/song/song_solo_vocals.wav'', page_preset = ''2'',
          page_is_multi = False, page_removals = [], page_instrument = ''vocals'',
          page_action = ''solo'', page_stems_dir = ''output/song'',
          page_file_name = ''song.mp3''\<rparr>"
    by code_simp
  have d: "fst (process sample_env empty_state (solo_vocals_request\<lparr>form_karaoke := None\<rparr>))
     = ResultPage
         \<lparr>page_mix_url = ''output/song/song_solo_vocals.wav'', page_preset = ''4'',
          page_is_multi = False, page_removals = [], page_instrument = ''vocals'',
          page_action = ''solo'', page_stems_dir = ''output/song'',
          page_file_name = ''song.mp3''\<rparr>"
    by code_simp
  from a b c d show ?thesis by (intro conjI)
qed

text \<open>
  C3, amended. For every single-mode request whose target is not "vocals" as the preset
  selector reads it (the route normalizes the instrument field and the selector
  normalizes the result once more), the selected preset and the outcome of the request
  (the response and the state it leaves) are the same whatever the karaoke field holds.
\<close>

theorem karaoke_flag_inert_unless_vocals:
  assumes "\<not> flag_on (form_multi req)"
    and "normalize_instrument_name
           (Some (normalize_instrument_name
                    (Some (case form_instrument req of None \<Rightarrow> ''drums'' | Some s \<Rightarrow> s))))
         \<noteq> ''vocals''"
  shows "map_sum id preset (read_request e (req\<lparr>form_karaoke := k1\<rparr>))
           = map_sum id preset (read_request e (req\<lparr>form_karaoke := k2\<rparr>))
         \<and> process e st (req\<lparr>form_karaoke := k1\<rparr>) = process e st (req\<lparr>form_karaoke := k2\<rparr>)"
  using karaoke_inert(1) [OF assms, of e st k1] karaoke_inert(1) [OF assms, of e st k2]
    karaoke_inert(2) [OF assms, of e k1] karaoke_inert(2) [OF assms, of e k2]
  by simp

theorem karaoke_flag_inert_unless_vocals_witness:
  "map_sum id preset (read_request sample_env (sample_request\<lparr>form_karaoke := Some ''on''\<rparr>))
     = map_sum id preset (read_request sample_env (sample_request\<lparr>form_karaoke := None\<rparr>))
   \<and> process sample_env empty_state (sample_request\<lparr>form_karaoke := Some ''on''\<rparr>)
     = process sample_env empty_state (sample_request\<lparr>form_karaoke := None\<rparr>)"
proof -
  have single: "\<not> flag_on (form_multi sample_request)"
    by (simp add: flag_on_def sample_request_def)
  have drums: "normalize_instrument_name
                 (Some (normalize_instrument_name
                          (Some (case form_instrument sample_request of
                                   None \<Rightarrow> ''drums'' | Some s \<Rightarrow> s))))
               \<noteq> ''vocals''"
    by code_simp
  from karaoke_flag_inert_unless_vocals [OF single drums] show ?thesis .
qed

subsection \<open>Multi-removal mode\<close>

lemma read_request_multi:
  assumes "flag_on (form_multi req)"
    and "read_action a1 \<in> {''remove'', ''solo''}"
    and "read_action a2 \<in> {''remove'', ''solo''}"
  shows "read_request e (req\<lparr>form_action := a1, form_karaoke := k1\<rparr>)
           = read_request e (req\<lparr>form_action := a2, form_karaoke := k2\<rparr>)"
  using assms by (auto simp add: read_request_def Let_def split: option.splits prod.splits)

text \<open>
  C10, as the claim states it, fails: the action token is checked before the mode is
  looked at, so of two multi-mode requests that differ in the action token only, the one
  with an unknown token is refused and the other is served.
\<close>

theorem multi_invalid_action_refused:
  "fst (process sample_env empty_state (multi_request\<lparr>form_action := Some ''bogus''\<rparr>))
     = InvalidAction
   \<and> fst (process sample_env empty_state (multi_request\<lparr>form_action := Some ''remove''\<rparr>))
     = ResultPage
         \<lparr>page_mix_url = ''output/song/song_no_bass-drums.wav'', page_preset = ''4'',
          page_is_multi = True, page_removals = [''bass'', ''drums''],
          page_instrument = ''drums'', page_action = ''remove'',
          page_stems_dir = ''output/song'', page_file_name = ''song.mp3''\<rparr>"
proof -
  have a: "fst (process sample_env empty_state (multi_request\<lparr>form_action := Some ''bogus''\<rparr>))
             = InvalidAction"
    by code_simp
  have b: "fst (process sample_env empty_state (multi_request\<lparr>form_action := Some ''remove''\<rparr>))
     = ResultPage
         \<lparr>page_mix_url = ''output/song/song_no_bass-drums.wav'', page_preset = ''4'',
          page_is_multi = True, page_removals = [''bass'', ''drums''],
          page_instrument = ''drums'', page_action = ''remove'',
          page_stems_dir = ''output/song'', page_file_name = ''song.mp3''\<rparr>"
    by code_simp
  from a b show ?thesis by (intro conjI)
qed

text \<open>
  C10, amended. Two multi-mode requests that differ in the action token and the karaoke
  field only, and whose action tokens are both accepted (each reads as "remove" or
  "solo"), are read as the same job, so preset, keep set and label are the same, and
  they have the same outcome: the same response and the same state. In that job the
  action is "remove" and the karaoke flag is off.
\<close>

theorem multi_ignores_action_and_karaoke:
  assumes "flag_on (form_multi req)"
    and "read_action a1 \<in> {''remove'', ''solo''}"
    and "read_action a2 \<in> {''remove'', ''solo''}"
  shows "read_request e (req\<lparr>form_action := a1, form_karaoke := k1\<rparr>)
           = read_request e (req\<lparr>form_action := a2, form_karaoke := k2\<rparr>)
         \<and> process e st (req\<lparr>form_action := a1, form_karaoke := k1\<rparr>)
           = process e st (req\<lparr>form_action := a2, form_karaoke := k2\<rparr>)
         \<and> (\<forall>j. read_request e (req\<lparr>form_action := a1, form_karaoke := k1\<rparr>) = Inr j
                \<longrightarrow> action j = ''remove'' \<and> \<not> karaoke_fast j
                    \<and> preset j = pick_preset_multi (removals_multi j))"
proof -
  have same: "read_request e (req\<lparr>form_action := a1, form_karaoke := k1\<rparr>)
                = read_request e (req\<lparr>form_action := a2, form_karaoke := k2\<rparr>)"
    using assms by (rule read_request_multi)
  have forced: "action j = ''remove'' \<and> \<not> karaoke_fast j
                  \<and> preset j = pick_preset_multi (removals_multi j)"
    if r: "read_request e (req\<lparr>form_action := a1, form_karaoke := k1\<rparr>) = Inr j" for j
  proof -
    have "is_multi j"
      using read_request_fields(1) [OF r] assms(1) by simp
    then show ?thesis
      using read_request_fields(3,4,5) [OF r] by simp
  qed
  from same forced show ?thesis
    by (simp add: process_def)
qed

theorem multi_ignores_action_and_karaoke_witness:
  "read_request sample_env (multi_request\<lparr>form_action := Some ''Solo '', form_karaoke := Some ''on''\<rparr>)
     = read_request sample_env (multi_request\<lparr>form_action := None, form_karaoke := None\<rparr>)
   \<and> process sample_env empty_state
        (multi_request\<lparr>form_action := Some ''Solo '', form_karaoke := Some ''on''\<rparr>)
     = process sample_env empty_state (multi_request\<lparr>form_action := None, form_karaoke := None\<rparr>)
   \<and> read_request sample_env (multi_request\<lparr>form_action := Some ''Solo '', form_karaoke := Some ''on''\<rparr>)
     = Inr \<lparr>filename = ''song.mp3'', upload = 5000, is_multi = True,
            removals_multi = [''drums'', ''bass''], instrument = ''drums'', action = ''remove'',
            karaoke_fast = False, preset = ''4stems''\<rparr>"
proof -
  have m: "flag_on (form_multi multi_request)"
    by (simp add: flag_on_def multi_request_def sample_request_def)
  have a1: "read_action (Some ''Solo '') \<in> {''remove'', ''solo''}"
    by code_simp
  have a2: "read_action None \<in> {''remove'', ''solo''}"
    by code_simp
  have job: "read_request sample_env
               (multi_request\<lparr>form_action := Some ''Solo '', form_karaoke := Some ''on''\<rparr>)
     = Inr \<lparr>filename = ''song.mp3'', upload = 5000, is_multi = True,
            removals_multi = [''drums'', ''bass''], instrument = ''drums'', action = ''remove'',
            karaoke_fast = False, preset = ''4stems''\<rparr>"
    by code_simp
  from multi_ignores_action_and_karaoke [OF m a1 a2, of sample_env "Some ''on''" None empty_state]
    job
  show ?thesis by blast
qed

lemma decide_keep_multi:
  "is_multi j \<Longrightarrow>
     decide_keep j sp =
       Inr (map snd (filter (\<lambda>(stem, p). stem \<notin> set (removals_multi j)) sp),
            ''no_'' @ join ''-'' (sorted_list_of_set (set (removals_multi j))))"
  by (simp add: decide_keep_def Let_def)

text \<open>
  C5. In multi-removal mode the label is "no_" followed by the members of the normalized
  removal set, sorted lexicographically without repetition and joined by "-"; so two
  requests whose removal lists normalize to the same set get the same label, whatever
  the order and the repetitions of the lists.
\<close>

theorem multi_label_deterministic:
  assumes "read_request e1 req1 = Inr j1" and "is_multi j1"
    and "read_request e2 req2 = Inr j2" and "is_multi j2"
    and "(\<lambda>x. normalize_instrument_name (Some x)) ` set (form_remove_multi req1)
           = (\<lambda>x. normalize_instrument_name (Some x)) ` set (form_remove_multi req2)"
  shows "map_sum id snd (decide_keep j1 sp1)
           = Inr (''no_'' @ join ''-''
                   (sorted_list_of_set
                     ((\<lambda>x. normalize_instrument_name (Some x)) ` set (form_remove_multi req1))))
         \<and> map_sum id snd (decide_keep j2 sp2) = map_sum id snd (decide_keep j1 sp1)
         \<and> sorted (sorted_list_of_set
                     ((\<lambda>x. normalize_instrument_name (Some x)) ` set (form_remove_multi req1)))
         \<and> distinct (sorted_list_of_set
                     ((\<lambda>x. normalize_instrument_name (Some x)) ` set (form_remove_multi req1)))
         \<and> set (sorted_list_of_set
                     ((\<lambda>x. normalize_instrument_name (Some x)) ` set (form_remove_multi req1)))
             = (\<lambda>x. normalize_instrument_name (Some x)) ` set (form_remove_multi req1)"
proof -
  have s1: "set (removals_multi j1)
              = (\<lambda>x. normalize_instrument_name (Some x)) ` set (form_remove_multi req1)"
    using read_request_fields(2) [OF assms(1)] by simp
  have s2: "set (removals_multi j2)
              = (\<lambda>x. normalize_instrument_name (Some x)) ` set (form_remove_multi req1)"
    using read_request_fields(2) [OF assms(3)] assms(5) by simp
  show ?thesis
    by (simp add: decide_keep_multi [OF assms(2)] decide_keep_multi [OF assms(4)] s1 s2)
qed

theorem multi_label_deterministic_witness:
  "map_sum id snd
     (decide_keep
        \<lparr>filename = ''song.mp3'', upload = 5000, is_multi = True,
         removals_multi = [''bass'', ''drums''], instrument = ''drums'', action = ''remove'',
         karaoke_fast = False, preset = ''4stems''\<rparr> [])
     = Inr ''no_bass-drums''
   \<and> map_sum id snd
       (decide_keep
          \<lparr>filename = ''song.mp3'', upload = 5000, is_multi = True,
           removals_multi = [''drums'', ''bass'', ''drums''], instrument = ''drums'',
           action = ''remove'', karaoke_fast = False, preset = ''4stems''\<rparr> [])
     = Inr ''no_bass-drums''"
proof -
  let ?r1 = "sample_request\<lparr>form_multi := Some ''on'', form_remove_multi := [''bass'', ''drums'']\<rparr>"
  let ?r2 = "sample_request\<lparr>form_multi := Some ''on'',
               form_remove_multi := [''Drums'', '' bass'', ''drums'']\<rparr>"
  let ?j1 = "\<lparr>filename = ''song.mp3'', upload = 5000, is_multi = True,
              removals_multi = [''bass'', ''drums''], instrument = ''drums'', action = ''remove'',
              karaoke_fast = False, preset = ''4stems''\<rparr>"
  let ?j2 = "\<lparr>filename = ''song.mp3'', upload = 5000, is_multi = True,
              removals_multi = [''drums'', ''bass'', ''drums''], instrument = ''drums'',
              action = ''remove'', karaoke_fast = False, preset = ''4stems''\<rparr>"
  have r1: "read_request sample_env ?r1 = Inr ?j1" by code_simp
  have r2: "read_request sample_env ?r2 = Inr ?j2" by code_simp
  have m1: "is_multi ?j1" by simp
  have m2: "is_multi ?j2" by simp
  have same: "(\<lambda>x. normalize_instrument_name (Some x)) ` set (form_remove_multi ?r1)
                = (\<lambda>x. normalize_instrument_name (Some x)) ` set (form_remove_multi ?r2)"
    by code_simp
  have label: "''no_'' @ join ''-''
                 (sorted_list_of_set
                   ((\<lambda>x. normalize_instrument_name (Some x)) ` set (form_remove_multi ?r1)))
               = ''no_bass-drums''"
    by code_simp
  from multi_label_deterministic [OF r1 m1 r2 m2 same, of "[]" "[]"] show ?thesis
    unfolding label by simp
qed

subsection \<open>Separation cache\<close>

lemma in_path_not_stem: "in_path_of j \<noteq> out_dir_of j @ [wav]"
  by (simp add: in_path_of_def out_dir_of_def UPLOAD_DIR_def OUTPUT_ROOT_def)

lemma stem_missing_upd_other:
  "p \<noteq> q \<Longrightarrow> stem_missing (fs(q := v)) p = stem_missing fs p"
  by (simp add: stem_missing_def)

lemma get_separator_frame:
  "get_separator e st p = Inr st' \<Longrightarrow>
     files st' = files st \<and> ffmpeg_calls st' = ffmpeg_calls st \<and> separate_calls st' = separate_calls st"
  by (auto simp add: get_separator_def split: if_splits option.splits)

lemma separate_ffmpeg_calls: "ffmpeg_calls (snd (separate e st j)) = ffmpeg_calls st"
  by (auto simp add: separate_def Let_def dest: get_separator_frame split: sum.splits prod.splits)

lemma ensure_stems_ffmpeg_calls: "ffmpeg_calls (snd (ensure_stems e st j)) = ffmpeg_calls st"
proof (cases "expected_stems_for (preset j)")
  case (Inl x)
  then show ?thesis by (simp add: ensure_stems_def Let_def)
next
  case (Inr stems)
  let ?st1 = "st\<lparr>files := (files st)(in_path_of j \<mapsto> upload j)\<rparr>"
  have s: "ffmpeg_calls (snd (separate e ?st1 j)) = ffmpeg_calls st"
    by (simp add: separate_ffmpeg_calls)
  show ?thesis
    using Inr s
    by (auto simp add: ensure_stems_def Let_def split: prod.splits option.splits if_splits)
qed

lemma ffmpeg_mix_frame:
  "separate_calls (snd (ffmpeg_mix e st ins out)) = separate_calls st
   \<and> separators (snd (ffmpeg_mix e st ins out)) = separators st"
  by (cases "subprocess_run e (ffmpeg_args ins out) (files st)")
     (simp add: ffmpeg_mix_def Let_def split: run_result.splits)

lemma mix_and_respond_frame:
  "separate_calls (snd (mix_and_respond e st j keep label)) = separate_calls st
   \<and> separators (snd (mix_and_respond e st j keep label)) = separators st"
proof -
  let ?m = "ffmpeg_mix e st keep
              (out_dir_of j @ [fst (splitext (filename j)) @ ''_'' @ label @ ''.wav''])"
  have "separate_calls (snd ?m) = separate_calls st \<and> separators (snd ?m) = separators st"
    by (rule ffmpeg_mix_frame)
  then show ?thesis
    by (cases ?m) (auto simp add: mix_and_respond_def Let_def split: sum.splits)
qed

lemma ensure_stems_cache_hit:
  assumes "expected_stems_for (preset j) = Inr stems"
    and "list_all (\<lambda>(name, wav). \<not> stem_missing (files st) (out_dir_of j @ [wav])) stems"
  shows "ensure_stems e st j =
           (Inr (map (\<lambda>(name, wav). (name, out_dir_of j @ [wav])) stems),
            st\<lparr>files := (files st)(in_path_of j := None)\<rparr>)"
proof -
  let ?sp = "map (\<lambda>(name, wav). (name, out_dir_of j @ [wav])) stems"
  have valid: "\<not> stem_missing ((files st)(in_path_of j := v)) (out_dir_of j @ [wav])"
    if "(n, wav) \<in> set stems" for n wav v
  proof -
    from that assms(2) have "\<not> stem_missing (files st) (out_dir_of j @ [wav])"
      by (auto simp add: list_all_iff)
    then show ?thesis
      using in_path_not_stem [of j wav] by (simp add: stem_missing_upd_other)
  qed
  have no_need: "\<not> list_ex (\<lambda>(name, p). stem_missing ((files st)(in_path_of j := v)) p) ?sp" for v
    using valid by (auto simp add: list_ex_iff)
  have none_missing: "filter (\<lambda>(name, p). stem_missing ((files st)(in_path_of j := v)) p) ?sp = []" for v
    using valid by (auto simp add: filter_empty_conv)
  show ?thesis
    using assms(1) no_need [of "Some (upload j)"] none_missing [of None]
    by (simp add: ensure_stems_def Let_def)
qed

lemma ensure_stems_valid:
  assumes "ensure_stems e st j = (Inr sp, st')"
  shows "list_all (\<lambda>(name, p). \<not> stem_missing (files st') p) sp"
    and "\<exists>stems. expected_stems_for (preset j) = Inr stems
           \<and> sp = map (\<lambda>(name, wav). (name, out_dir_of j @ [wav])) stems"
  using assms
  by (auto simp add: ensure_stems_def Let_def list_all_iff filter_empty_conv
      split: sum.splits prod.splits option.splits if_splits)

lemma ensure_stems_failure_status:
  "fst (ensure_stems e st j) = Inl r \<Longrightarrow> status r = 500"
  by (auto simp add: ensure_stems_def Let_def
      split: sum.splits prod.splits option.splits if_splits)

lemma ffmpeg_mix_files:
  "files (snd (ffmpeg_mix e st ins out)) =
     (if ins = [] then files st else snd (subprocess_run e (ffmpeg_args ins out) (files st)))"
  by (cases "subprocess_run e (ffmpeg_args ins out) (files st)")
     (simp add: ffmpeg_mix_def Let_def split: run_result.splits)

lemma mix_and_respond_files:
  "files (snd (mix_and_respond e st j keep label)) =
     (if keep = [] then files st
      else snd (subprocess_run e
                  (ffmpeg_args keep
                     (out_dir_of j @ [fst (splitext (filename j)) @ ''_'' @ label @ ''.wav'']))
                  (files st)))"
proof -
  let ?m = "ffmpeg_mix e st keep
              (out_dir_of j @ [fst (splitext (filename j)) @ ''_'' @ label @ ''.wav''])"
  have "files (snd ?m) =
     (if keep = [] then files st
      else snd (subprocess_run e
                  (ffmpeg_args keep
                     (out_dir_of j @ [fst (splitext (filename j)) @ ''_'' @ label @ ''.wav'']))
                  (files st)))"
    by (rule ffmpeg_mix_files)
  then show ?thesis
    by (cases ?m) (auto simp add: mix_and_respond_def Let_def split: sum.splits)
qed

lemma run_job_cache_hit:
  assumes "expected_stems_for (preset j) = Inr stems"
    and "list_all (\<lambda>(name, wav). \<not> stem_missing (files st) (out_dir_of j @ [wav])) stems"
  shows "separate_calls (snd (run_job e st j)) = separate_calls st"
    and "separators (snd (run_job e st j)) = separators st"
  using mix_and_respond_frame
  by (auto simp add: run_job_def ensure_stems_cache_hit [OF assms] split: sum.splits prod.splits)

lemma run_job_leaves_stems:
  assumes "expected_stems_for (preset j) = Inr stems"
    and "status (fst (run_job e st j)) = 200"
    and frame: "\<forall>args fs.
           list_all (\<lambda>(name, wav). \<not> stem_missing fs (out_dir_of j @ [wav])) stems
           \<longrightarrow> list_all (\<lambda>(name, wav). \<not> stem_missing (snd (subprocess_run e args fs))
                                        (out_dir_of j @ [wav])) stems"
  shows "list_all (\<lambda>(name, wav). \<not> stem_missing (files (snd (run_job e st j)))
                                   (out_dir_of j @ [wav])) stems"
proof -
  obtain x st' where es: "ensure_stems e st j = (x, st')"
    by (cases "ensure_stems e st j")
  show ?thesis
  proof (cases x)
    case (Inl r)
    then have "status r = 500"
      using ensure_stems_failure_status [of e st j r] es by simp
    then show ?thesis
      using assms(2) by (simp add: run_job_def es Inl)
  next
    case (Inr sp)
    from ensure_stems_valid [OF es [unfolded Inr]] assms(1)
    have valid: "list_all (\<lambda>(name, wav). \<not> stem_missing (files st') (out_dir_of j @ [wav])) stems"
      by (auto simp add: list_all_iff)
    show ?thesis
    proof (cases "decide_keep j sp")
      case (Inl r)
      then show ?thesis using valid by (simp add: run_job_def es Inr)
    next
      case dk: (Inr kl)
      obtain keep label where kl: "kl = (keep, label)" by (cases kl)
      have "files (snd (run_job e st j)) = files (snd (mix_and_respond e st' j keep label))"
        by (simp add: run_job_def es Inr dk kl)
      then show ?thesis
        using valid frame by (simp add: mix_and_respond_files)
    qed
  qed
qed

text \<open>
  C4. For a request that has passed its checks, when every expected stem file of its
  preset exists and is non-empty, \<^verbatim>\<open>ensure_stems\<close> returns the paths of the existing stems,
  only the upload is removed again, and the run neither builds nor invokes a separator.
  In particular, after a run that ended with the result page, with a mixer that leaves
  existing stems in place, a second run of the same request performs no separation.
\<close>

theorem cached_stems_skip_separation:
  assumes "read_request e req = Inr j"
    and "expected_stems_for (preset j) = Inr stems"
  shows "(list_all (\<lambda>(name, wav). \<not> stem_missing (files st) (out_dir_of j @ [wav])) stems
            \<longrightarrow> ensure_stems e st j =
                  (Inr (map (\<lambda>(name, wav). (name, out_dir_of j @ [wav])) stems),
                   st\<lparr>files := (files st)(in_path_of j := None)\<rparr>)
                \<and> separate_calls (snd (process e st req)) = separate_calls st
                \<and> separators (snd (process e st req)) = separators st)
         \<and> (status (fst (process e st req)) = 200
            \<and> (\<forall>args fs.
                  list_all (\<lambda>(name, wav). \<not> stem_missing fs (out_dir_of j @ [wav])) stems
                  \<longrightarrow> list_all (\<lambda>(name, wav). \<not> stem_missing (snd (subprocess_run e args fs))
                                               (out_dir_of j @ [wav])) stems)
            \<longrightarrow> separate_calls (snd (process e (snd (process e st req)) req))
                  = separate_calls (snd (process e st req))
                \<and> separators (snd (process e (snd (process e st req)) req))
                  = separators (snd (process e st req)))"
proof -
  have p: "process e s req = run_job e s j" for s
    by (simp add: process_def assms(1))
  show ?thesis
    unfolding p
    using ensure_stems_cache_hit [OF assms(2)] run_job_cache_hit [OF assms(2)]
      run_job_leaves_stems [OF assms(2)]
    by blast
qed

lemma sample_run_keeps:
  "\<not> stem_missing fs p \<Longrightarrow> \<not> stem_missing (snd (sample_run args fs)) p"
  by (simp add: sample_run_def stem_missing_def)

theorem cached_stems_skip_separation_witness:
  "separate_calls (snd (process sample_env (snd (process sample_env empty_state sample_request))
                          sample_request))
     = separate_calls (snd (process sample_env empty_state sample_request))
   \<and> separators (snd (process sample_env (snd (process sample_env empty_state sample_request))
                         sample_request))
     = separators (snd (process sample_env empty_state sample_request))
   \<and> separate_calls (snd (process sample_env empty_state sample_request))
     = [(''4stems'', ''uploads/song.mp3'', ''static/output'')]
   \<and> fst (ensure_stems sample_env (snd (process sample_env empty_state sample_request))
            \<lparr>filename = ''song.mp3'', upload = 5000, is_multi = False, removals_multi = [],
             instrument = ''drums'', action = ''remove'', karaoke_fast = False,
             preset = ''4stems''\<rparr>)
     = Inr [(''vocals'', [''static'', ''output'', ''song'', ''vocals.wav'']),
            (''drums'', [''static'', ''output'', ''song'', ''drums.wav'']),
            (''bass'', [''static'', ''output'', ''song'', ''bass.wav'']),
            (''other'', [''static'', ''output'', ''song'', ''other.wav''])]"
proof -
  let ?j = "\<lparr>filename = ''song.mp3'', upload = 5000, is_multi = False, removals_multi = [],
             instrument = ''drums'', action = ''remove'', karaoke_fast = False,
             preset = ''4stems''\<rparr>"
  let ?stems = "[(''vocals'', ''vocals.wav''), (''drums'', ''drums.wav''),
                 (''bass'', ''bass.wav''), (''other'', ''other.wav'')]"
  let ?st1 = "snd (process sample_env empty_state sample_request)"
  have r: "read_request sample_env sample_request = Inr ?j" by code_simp
  have x: "expected_stems_for (preset ?j) = Inr ?stems" by code_simp
  have completed: "status (fst (process sample_env empty_state sample_request)) = 200"
    by code_simp
  have frame: "\<forall>args fs.
      list_all (\<lambda>(name, wav). \<not> stem_missing fs (out_dir_of ?j @ [wav])) ?stems
      \<longrightarrow> list_all (\<lambda>(name, wav). \<not> stem_missing (snd (subprocess_run sample_env args fs))
                                   (out_dir_of ?j @ [wav])) ?stems"
    by (simp add: sample_env_def sample_run_keeps)
  have cached: "list_all (\<lambda>(name, wav). \<not> stem_missing (files ?st1) (out_dir_of ?j @ [wav])) ?stems"
    by code_simp
  have dir: "map (\<lambda>(name, wav). (name, out_dir_of ?j @ [wav])) ?stems
      = [(''vocals'', [''static'', ''output'', ''song'', ''vocals.wav'']),
         (''drums'', [''static'', ''output'', ''song'', ''drums.wav'']),
         (''bass'', [''static'', ''output'', ''song'', ''bass.wav'']),
         (''other'', [''static'', ''output'', ''song'', ''other.wav''])]"
    by code_simp
  have first: "separate_calls ?st1 = [(''4stems'', ''uploads/song.mp3'', ''static/output'')]"
    by code_simp
  note again = cached_stems_skip_separation [OF r x, of empty_state]
  note hit = cached_stems_skip_separation [OF r x, of ?st1]
  have a: "separate_calls (snd (process sample_env ?st1 sample_request)) = separate_calls ?st1
           \<and> separators (snd (process sample_env ?st1 sample_request)) = separators ?st1"
    using again completed frame by blast
  have b: "fst (ensure_stems sample_env ?st1 ?j)
             = Inr (map (\<lambda>(name, wav). (name, out_dir_of ?j @ [wav])) ?stems)"
    using hit cached by simp
  from a b first show ?thesis
    unfolding dir by blast
qed

subsection \<open>Empty selection\<close>

lemma run_job_empty_keep:
  assumes "fst (ensure_stems e st j) = Inr sp"
    and "map_sum id fst (decide_keep j sp) = Inr []"
  shows "run_job e st j = (NothingToMix, snd (ensure_stems e st j))"
proof -
  obtain st' where es: "ensure_stems e st j = (Inr sp, st')"
    using assms(1) by (cases "ensure_stems e st j") simp
  obtain label where dk: "decide_keep j sp = Inr ([], label)"
    using assms(2) by (cases "decide_keep j sp") auto
  show ?thesis
    by (simp add: run_job_def es dk mix_and_respond_def)
qed

lemma full_removal_keeps_nothing:
  assumes "is_multi j" and "fst ` set sp \<subseteq> set (removals_multi j)"
  shows "map_sum id fst (decide_keep j sp) = Inr []"
proof -
  have "filter (\<lambda>(stem, p). stem \<notin> set (removals_multi j)) sp = []"
    using assms(2) by (auto simp add: filter_empty_conv)
  then show ?thesis
    by (simp add: decide_keep_multi [OF assms(1)])
qed

text \<open>
  C6. Once the request has passed its checks and the stems are there, an empty keep set
  ends the request with "Nothing to mix" (status 400), in the state the separation left,
  and the mixer has not been invoked. A multi-mode removal set that covers every stem of
  the chosen preset gives the empty keep set.
\<close>

theorem empty_keep_set_refused:
  assumes "read_request e req = Inr j"
    and "fst (ensure_stems e st j) = Inr sp"
  shows "(map_sum id fst (decide_keep j sp) = Inr []
            \<longrightarrow> process e st req = (NothingToMix, snd (ensure_stems e st j))
                \<and> status (fst (process e st req)) = 400
                \<and> ffmpeg_calls (snd (process e st req)) = ffmpeg_calls st)
         \<and> (is_multi j \<and> fst ` set sp \<subseteq> set (removals_multi j)
            \<longrightarrow> map_sum id fst (decide_keep j sp) = Inr [])"
proof -
  have "process e st req = (NothingToMix, snd (ensure_stems e st j))
          \<and> status (fst (process e st req)) = 400
          \<and> ffmpeg_calls (snd (process e st req)) = ffmpeg_calls st"
    if "map_sum id fst (decide_keep j sp) = Inr []"
    using run_job_empty_keep [OF assms(2) that]
    by (simp add: process_def assms(1) ensure_stems_ffmpeg_calls)
  then show ?thesis
    using full_removal_keeps_nothing by blast
qed

theorem empty_keep_set_refused_witness:
  "process sample_env empty_state full_removal_request
     = (NothingToMix,
        snd (ensure_stems sample_env empty_state
               \<lparr>filename = ''song.mp3'', upload = 5000, is_multi = True,
                removals_multi = [''vocals'', ''drums'', ''bass'', ''other''],
                instrument = ''drums'', action = ''remove'', karaoke_fast = False,
                preset = ''4stems''\<rparr>))
   \<and> ffmpeg_calls (snd (process sample_env empty_state full_removal_request)) = []"
proof -
  let ?j = "\<lparr>filename = ''song.mp3'', upload = 5000, is_multi = True,
             removals_multi = [''vocals'', ''drums'', ''bass'', ''other''],
             instrument = ''drums'', action = ''remove'', karaoke_fast = False,
             preset = ''4stems''\<rparr>"
  let ?sp = "[(''vocals'', [''static'', ''output'', ''song'', ''vocals.wav'']),
              (''drums'', [''static'', ''output'', ''song'', ''drums.wav'']),
              (''bass'', [''static'', ''output'', ''song'', ''bass.wav'']),
              (''other'', [''static'', ''output'', ''song'', ''other.wav''])]"
  have r: "read_request sample_env full_removal_request = Inr ?j" by code_simp
  have es: "fst (ensure_stems sample_env empty_state ?j) = Inr ?sp" by code_simp
  have full: "is_multi ?j \<and> fst ` set ?sp \<subseteq> set (removals_multi ?j)" by simp
  have calls: "ffmpeg_calls empty_state = []" by (simp add: empty_state_def)
  let ?K = "map_sum id fst (decide_keep ?j ?sp) = Inr []"
  let ?P = "process sample_env empty_state full_removal_request
              = (NothingToMix, snd (ensure_stems sample_env empty_state ?j))"
  let ?S = "status (fst (process sample_env empty_state full_removal_request)) = 400"
  let ?C = "ffmpeg_calls (snd (process sample_env empty_state full_removal_request))
              = ffmpeg_calls empty_state"
  have t: "(?K \<longrightarrow> ?P \<and> ?S \<and> ?C)
           \<and> (is_multi ?j \<and> fst ` set ?sp \<subseteq> set (removals_multi ?j) \<longrightarrow> ?K)"
    by (rule empty_keep_set_refused [OF r es])
  from t have t1: "?K \<longrightarrow> ?P \<and> ?S \<and> ?C" by (rule conjunct1)
  from t have t2: "is_multi ?j \<and> fst ` set ?sp \<subseteq> set (removals_multi ?j) \<longrightarrow> ?K"
    by (rule conjunct2)
  from t2 full have k: ?K by (rule mp)
  from t1 k have psc: "?P \<and> ?S \<and> ?C" by (rule mp)
  from psc have p: ?P by (rule conjunct1)
  from psc have c: ?C by (rule conjunct2 [THEN conjunct2])
  from c have "ffmpeg_calls (snd (process sample_env empty_state full_removal_request)) = []"
    by (simp only: calls)
  with p show ?thesis by (rule conjI)
qed

end
